theory Spec2Isabelle
  imports Complex_Main "HOL-Library.Word" "HOL-Library.Finite_Map" "HOL-Library.Sublist"
    "HOL-Library.Multiset"
begin

unbundle bit_operations_syntax

section \<open>JavaScript strings\<close>

text \<open>
  A JavaScript string is a sequence of UTF-16 code units; \<open>length\<close>, \<open>charCodeAt\<close>,
  \<open>slice\<close>, \<open>includes\<close> and \<open>lastIndexOf\<close> all count code units. A code unit is kept as
  a natural number (every theorem below therefore holds in particular for the code units
  below 65536). \<open>js\<close> turns an ASCII literal into such a string; characters outside ASCII
  (and the quote characters) are written by their code unit.
\<close>

type_synonym jsstring = "nat list"

definition js :: "string \<Rightarrow> jsstring" where
  "js s = map of_char s"

text \<open>\<open>String.prototype.includes\<close>: does the needle occur at some position.\<close>

fun includes_js :: "jsstring \<Rightarrow> jsstring \<Rightarrow> bool" where
  "includes_js [] needle = (needle = [])"
| "includes_js (c # cs) needle = (prefix needle (c # cs) \<or> includes_js cs needle)"

text \<open>
  \<open>String.prototype.trim\<close> removes the leading and trailing WhiteSpace and LineTerminator
  code units of ECMAScript.
\<close>

definition is_space :: "nat \<Rightarrow> bool" where
  "is_space c \<longleftrightarrow>
     c \<in> {0x09, 0x0A, 0x0B, 0x0C, 0x0D, 0x20, 0xA0, 0x1680, 0x2028, 0x2029, 0x202F, 0x205F,
          0x3000, 0xFEFF} \<or> (0x2000 \<le> c \<and> c \<le> 0x200A)"

definition trim :: "jsstring \<Rightarrow> jsstring" where
  "trim s = rev (dropWhile is_space (rev (dropWhile is_space s)))"

text \<open>
  \<open>String.prototype.toLowerCase\<close>, on the Basic Latin letters. The runtime also maps the
  capital letters of other scripts by the Unicode case tables, which are not part of the
  repository; every other code unit is left as it is here.
\<close>

definition lower_unit :: "nat \<Rightarrow> nat" where
  "lower_unit c = (if 0x41 \<le> c \<and> c \<le> 0x5A then c + 0x20 else c)"

definition toLowerCase :: "jsstring \<Rightarrow> jsstring" where
  "toLowerCase s = map lower_unit s"

text \<open>The decimal digits of an array index, as a template literal prints a number.\<close>

fun decimal :: "nat \<Rightarrow> jsstring" where
  "decimal n = (if n < 10 then [48 + n] else decimal (n div 10) @ [48 + n mod 10])"

declare decimal.simps [simp del]

text \<open>\<open>Array.prototype.join\<close>.\<close>

fun join :: "jsstring \<Rightarrow> jsstring list \<Rightarrow> jsstring" where
  "join sep [] = []"
| "join sep [x] = x"
| "join sep (x # y # ys) = x @ sep @ join sep (y # ys)"

section \<open>The fallback chat path (AIService)\<close>

datatype error =
    ReferenceError jsstring  \<comment> \<open>an identifier that is bound nowhere in scope\<close>
  | Error jsstring           \<comment> \<open>\<open>throw new Error(message)\<close>\<close>

text \<open>
  A retrieved passage handed to the generator is either an object with an optional
  \<open>text\<close> field (what the chat route builds) or a plain string.
\<close>

datatype ctx = CtxObject "jsstring option" | CtxString jsstring

text \<open>
  \<open>ctx.text || ctx\<close> inside a template literal: the text when it is present and non-empty
  (truthy), otherwise the passage itself converted to a string.
\<close>

fun ctx_text :: "ctx \<Rightarrow> jsstring" where
  "ctx_text (CtxString s) = s"
| "ctx_text (CtxObject (Some t)) = (if t \<noteq> [] then t else js ''[object Object]'')"
| "ctx_text (CtxObject None) = js ''[object Object]''"

text \<open>The four canned replies of \<open>getHelpfulResponse\<close>, code unit for code unit.\<close>

definition sine_response :: jsstring where
  "sine_response =
   js ''The sine function is a fundamental trigonometric function:'' @ [10, 10, 8226] @
   js '' **Definition**: sin('' @ [952] @ js '') = opposite/hypotenuse in a right triangle'' @
   [10, 8226] @ js '' **Unit Circle**: sin('' @ [952] @
   js '') = y-coordinate on the unit circle'' @ [10, 10] @ js ''**Key Values**:'' @ [10] @
   js ''- sin(0'' @ [176] @ js '') = 0'' @ [10] @ js ''- sin(30'' @ [176] @ js '') = 1/2'' @
   [10] @ js ''- sin(45'' @ [176] @ js '') = '' @ [8730] @ js ''2/2'' @ [10] @ js ''- sin(60'' @
   [176] @ js '') = '' @ [8730] @ js ''3/2'' @ [10] @ js ''- sin(90'' @ [176] @ js '') = 1'' @
   [10, 10] @ js ''**Important Identities**:'' @ [10] @ js ''- sin'' @ [178] @ js ''('' @
   [952] @ js '') + cos'' @ [178] @ js ''('' @ [952] @ js '') = 1'' @ [10] @ js ''- sin(90'' @
   [176] @ js '' - '' @ [952] @ js '') = cos('' @ [952] @ js '')'' @ [10] @ js ''- sin(-'' @
   [952] @ js '') = -sin('' @ [952] @ js '')'' @ [10, 10] @
   js ''Would you like me to explain any specific application or concept related to sine?''"

definition arrays_response :: jsstring where
  "arrays_response =
   js ''**Arrays** are fundamental data structures:'' @ [10, 10, 8226] @
   js '' **Definition**: A collection of elements stored in contiguous memory locations, accessible by index'' @
   [10, 10, 8226] @ js '' **Key Characteristics**:'' @ [10] @ js ''  - Fixed or dynamic size'' @
   [10] @ js ''  - Zero-based indexing (usually)'' @ [10] @ js ''  - Random access (O(1))'' @
   [10, 10, 8226] @ js '' **Time Complexities**:'' @ [10] @ js ''  - Access: O(1)'' @ [10] @
   js ''  - Search: O(n)'' @ [10] @ js ''  - Insertion: O(n)'' @ [10] @
   js ''  - Deletion: O(n)'' @ [10, 10, 8226] @ js '' **Common Operations**:'' @ [10] @
   js ''  - Traversal'' @ [10] @ js ''  - Searching (linear, binary)'' @ [10] @
   js ''  - Sorting (bubble, merge, quick)'' @ [10] @ js ''  - Insertion/Deletion'' @ [10, 10] @
   js ''Would you like to dive deeper into any specific aspect of arrays?''"

definition greeting_response :: jsstring where
  "greeting_response =
   js ''Hello! '' @ [55357, 56395] @ js '' I'' @ [39] @ js ''m your AI Tutor Agent. I'' @ [39] @
   js ''m here to help you learn! '' @ [55356, 57235, 10, 10] @ js ''I can help you with:'' @
   [10, 8226] @ js '' Understanding concepts from your study materials'' @ [10, 8226] @
   js '' Answering questions with explanations'' @ [10, 8226] @
   js '' Generating quizzes and practice problems'' @ [10, 8226] @
   js '' Providing step-by-step guidance'' @ [10, 10] @ js ''**To get the best experience:**'' @
   [10] @ js ''1. Upload your study materials (PDFs)'' @ [10] @
   js ''2. Ask me questions based on them'' @ [10] @ js ''3. I'' @ [39] @
   js ''ll provide answers grounded in your materials'' @ [10, 10] @
   js ''What would you like to learn today?''"

definition help_response :: jsstring where
  "help_response =
   js ''I'' @ [39] @ js ''m your AI Tutor Agent! Here'' @ [39] @ js ''s what I can do:'' @
   [10, 10, 55357, 56538] @ js '' **Study Assistance**:'' @ [10] @
   js ''- Answer questions from your uploaded study materials'' @ [10] @
   js ''- Explain concepts step-by-step'' @ [10] @ js ''- Provide examples and analogies'' @
   [10, 10, 55357, 56541] @ js '' **Quiz Generation**:'' @ [10] @
   js ''- Create quizzes from your study materials'' @ [10] @
   js ''- Multiple question types (MCQ, short answer)'' @ [10] @
   js ''- Auto-grading and feedback'' @ [10, 10, 55357, 56481] @ js '' **Learning Support**:'' @
   [10] @ js ''- Break down complex topics'' @ [10] @
   js ''- Provide personalized explanations'' @ [10] @
   js ''- Help you understand difficult concepts'' @ [10, 10] @ js ''**To get started:**'' @
   [10] @ js ''1. Upload your PDF study materials'' @ [10] @
   js ''2. Ask me questions about the content'' @ [10] @
   js ''3. Generate quizzes to test your knowledge'' @ [10, 10] @
   js ''What would you like to try first?''"

text \<open>
  The default reply is a template literal that reads \<open>message\<close> and \<open>contexts.length\<close>.
  \<open>scope\<close> is what the identifier \<open>contexts\<close> resolves to where the literal is
  evaluated: \<open>None\<close> when no binding is in scope, in which case evaluating the literal
  throws a ReferenceError.
\<close>

fun default_response :: "jsstring \<Rightarrow> ctx list option \<Rightarrow> error + jsstring" where
  "default_response message None = Inl (ReferenceError (js ''contexts''))"
| "default_response message (Some contexts) = Inr (
     js ''I'' @ [39] @ js ''d be happy to help with '' @ [34] @ message @ [34] @ js ''! '' @
     [10, 10] @ js ''**To provide the best answer:**'' @ [10] @
     js ''1. Upload your study materials (PDFs) for context-aware responses'' @ [10] @
     js ''2. Ask specific questions about the content'' @ [10] @ js ''3. I'' @ [39] @
     js ''ll search through your materials and provide detailed explanations'' @ [10, 10] @
     js ''**Current Status:**'' @ [10] @ js ''- '' @
     (if length contexts > 0 then [9989] @ js '' Using your study materials''
      else [9888, 65039] @
        js '' No study materials uploaded yet (using general knowledge)'') @
     [10, 10] @
     js ''Could you provide more details about what you'' @ [39] @
     js ''d like to learn? For example:'' @ [10, 8226] @ js '' Math concepts and formulas'' @
     [10, 8226] @ js '' Programming and data structures'' @ [10, 8226] @
     js '' Science topics'' @ [10, 8226] @ js '' Any subject you'' @ [39] @
     js ''re studying!'')"

text \<open>
  \<open>getHelpfulResponse(message)\<close>: its only parameter is \<open>message\<close>; neither the method,
  the class nor the module binds \<open>contexts\<close>, so the default reply is evaluated with no
  binding for it.
\<close>

definition getHelpfulResponse :: "jsstring \<Rightarrow> error + jsstring" where
  "getHelpfulResponse message =
     (if includes_js message (js ''sin'') \<and>
         (includes_js message (js ''theta'') \<or> includes_js message [952])
      then Inr sine_response
      else if includes_js message (js ''array'') \<or> includes_js message (js ''dsa'') \<or>
              includes_js message (js ''data structure'')
      then Inr arrays_response
      else if message = js ''hi'' \<or> message = js ''hello'' \<or> message = js ''hey''
      then Inr greeting_response
      else if includes_js message (js ''help'') \<or> includes_js message (js ''what can you do'')
      then Inr help_response
      else default_response message None)"

text \<open>\<open>fallbackChatResponse(message, contexts = [])\<close>.\<close>

definition fallbackChatResponse :: "jsstring \<Rightarrow> ctx list \<Rightarrow> error + jsstring" where
  "fallbackChatResponse message contexts =
     (let lowerMessage = trim (toLowerCase message) in
      if length contexts > 0 then
        (let contextText =
               join [10, 10]
                 (map (\<lambda>(i, ctx). js ''['' @ decimal (i + 1) @ js ''] '' @ ctx_text ctx)
                    (enumerate 0 contexts))
         in case getHelpfulResponse lowerMessage of
              Inl e \<Rightarrow> Inl e
            | Inr r \<Rightarrow> Inr (js ''Based on your study materials:'' @ [10, 10] @ contextText @
                           [10, 10] @ r))
      else getHelpfulResponse lowerMessage)"

section \<open>The chunker (server.js)\<close>

text \<open>
  \<open>slice(start, end)\<close> of strings and arrays: a negative index counts from the end, and
  both indices are clamped to the length.
\<close>

definition slice :: "'a list \<Rightarrow> int \<Rightarrow> int \<Rightarrow> 'a list" where
  "slice xs start fin =
     (let len = int (length xs);
          lo = (if start < 0 then max (len + start) 0 else min start len);
          hi = (if fin < 0 then max (len + fin) 0 else min fin len)
      in take (nat (hi - lo)) (drop (nat lo) xs))"

text \<open>
  \<open>text.lastIndexOf(c, position)\<close> for a one-unit search string: the greatest index
  \<open>k\<close> with \<open>k \<le> position\<close> (clamped into the string) holding \<open>c\<close>, or \<open>-1\<close>.
\<close>

definition lastIndexOf :: "jsstring \<Rightarrow> nat \<Rightarrow> int \<Rightarrow> int" where
  "lastIndexOf s c position =
     (let start = min (max position 0) (int (length s) - 1);
          hits = filter (\<lambda>k. s ! k = c) [0..<nat (start + 1)]
      in if hits = [] then - 1 else int (last hits))"

text \<open>
  The end of the window that starts at \<open>start\<close>: \<open>start + chunkSize\<close>, moved back to
  just after the last full stop or newline when the window ends inside the text and that
  break point lies beyond the middle of the window. Sizes are integers; on integers
  \<open>breakPoint > start + chunkSize * 0.5\<close> is \<open>2 * breakPoint > 2 * start + chunkSize\<close>.
\<close>

definition chunk_end :: "jsstring \<Rightarrow> int \<Rightarrow> int \<Rightarrow> int" where
  "chunk_end s chunkSize start =
     (let end0 = start + chunkSize
      in if end0 < int (length s) then
           (let lastPeriod = lastIndexOf s 46 end0;
                lastNewline = lastIndexOf s 10 end0;
                breakPoint = max lastPeriod lastNewline
            in if 2 * breakPoint > 2 * start + chunkSize then breakPoint + 1 else end0)
         else end0)"

text \<open>
  The \<open>while\<close> loop of \<open>chunkText\<close>, with its variables \<open>start\<close> and \<open>chunks\<close> as
  arguments. The loop has no bound of its own, so it is a partial function: \<open>None\<close> is a
  run that never returns.
\<close>

partial_function (option) chunk_loop ::
  "jsstring \<Rightarrow> int \<Rightarrow> int \<Rightarrow> int \<Rightarrow> jsstring list \<Rightarrow> jsstring list option" where
  "chunk_loop s chunkSize overlap start chunks =
     (if start < int (length s) then
        (let fin = chunk_end s chunkSize start;
             chunk = trim (slice s start fin);
             chunks' = (if length chunk > 0 then chunks @ [chunk] else chunks)
         in chunk_loop s chunkSize overlap (fin - overlap) chunks')
      else Some chunks)"

declare chunk_loop.simps [code]

definition chunkText :: "jsstring \<Rightarrow> int \<Rightarrow> int \<Rightarrow> jsstring list option" where
  "chunkText s chunkSize overlap = chunk_loop s chunkSize overlap 0 []"

section \<open>Numbers\<close>

text \<open>
  A JavaScript number is an IEEE 754 double: a finite value (kept as the real it stands
  for), \<open>NaN\<close> or an infinity. The repository does not define how the runtime rounds, so
  the arithmetic is a parameter of every function that computes with numbers: the sum,
  product, quotient, square root and sine of numbers. Nothing is assumed about it unless a
  theorem says so; what is proved for every arithmetic holds for the doubles.
\<close>

datatype number = Fin real | NaN | PosInfinity | NegInfinity

record arith =
  num_add :: "number \<Rightarrow> number \<Rightarrow> number"
  num_mul :: "number \<Rightarrow> number \<Rightarrow> number"
  num_div :: "number \<Rightarrow> number \<Rightarrow> number"
  num_sqrt :: "number \<Rightarrow> number"
  num_sin :: "number \<Rightarrow> number"

text \<open>
  The sort comparator subtracts two numbers and the sort reads only the sign of the
  difference. That sign is exact for doubles (a difference of two distinct finite doubles
  is never rounded to zero), so the difference is taken exactly here.
\<close>

fun js_sub :: "number \<Rightarrow> number \<Rightarrow> number" where
  "js_sub (Fin x) (Fin y) = Fin (x - y)"
| "js_sub NaN _ = NaN"
| "js_sub _ NaN = NaN"
| "js_sub PosInfinity PosInfinity = NaN"
| "js_sub NegInfinity NegInfinity = NaN"
| "js_sub PosInfinity _ = PosInfinity"
| "js_sub NegInfinity _ = NegInfinity"
| "js_sub (Fin x) PosInfinity = NegInfinity"
| "js_sub (Fin x) NegInfinity = PosInfinity"

fun is_negative :: "number \<Rightarrow> bool" where
  "is_negative (Fin x) = (x < 0)"
| "is_negative NegInfinity = True"
| "is_negative _ = False"


section \<open>The fallback embedding (AIService)\<close>







section \<open>The vector store\<close>

record metadata =
  filename :: jsstring
  page :: int
  totalPages :: int

text \<open>
  A stored record is the fields every chunk has, plus its embedding; a search result is the
  same fields plus the similarity, without the embedding.
\<close>

record chunk =
  vec_id :: jsstring
  documentId :: jsstring
  chunk_text :: jsstring
  chunkIndex :: nat
  metadata :: metadata

record vector = chunk +
  embedding :: "number list"

record result = chunk +
  similarity :: number

record document =
  doc_id :: jsstring
  doc_filename :: jsstring
  uploadedAt :: jsstring
  numChunks :: nat
  numPages :: int
  filePath :: jsstring
  createdAt :: jsstring

record store =
  vectors :: "vector list"
  documents :: "(jsstring, document) fmap"

record stats =
  totalVectors :: nat
  totalDocuments :: nat

definition addVectors :: "vector list \<Rightarrow> store \<Rightarrow> nat \<times> store" where
  "addVectors vs st = (length vs, st\<lparr>vectors := vectors st @ vs\<rparr>)"

text \<open>
  \<open>cosineSimilarity(vecA, vecB)\<close>: the length check, then one loop over the indices
  accumulating \<open>dotProduct\<close>, \<open>normA\<close> and \<open>normB\<close>.
\<close>

definition DimensionMismatch :: error where
  "DimensionMismatch = Error (js ''Vectors must have the same length'')"

definition cosine_loop :: "arith \<Rightarrow> number list \<Rightarrow> number list \<Rightarrow> number \<times> number \<times> number" where
  "cosine_loop ar vecA vecB =
     fold (\<lambda>i (dotProduct, normA, normB).
             (num_add ar dotProduct (num_mul ar (vecA ! i) (vecB ! i)),
              num_add ar normA (num_mul ar (vecA ! i) (vecA ! i)),
              num_add ar normB (num_mul ar (vecB ! i) (vecB ! i))))
       [0..<length vecA] (Fin 0, Fin 0, Fin 0)"

definition cosineSimilarity :: "arith \<Rightarrow> number list \<Rightarrow> number list \<Rightarrow> error + number" where
  "cosineSimilarity ar vecA vecB =
     (if length vecA \<noteq> length vecB then Inl DimensionMismatch
      else (case cosine_loop ar vecA vecB of
              (dotProduct, normA, normB) \<Rightarrow>
                Inr (num_div ar dotProduct (num_mul ar (num_sqrt ar normA) (num_sqrt ar normB)))))"

text \<open>
  The \<open>map\<close> over the candidates: the first record whose similarity computation throws
  ends the whole \<open>map\<close> with that error.
\<close>

fun score_all :: "arith \<Rightarrow> number list \<Rightarrow> vector list \<Rightarrow> error + (vector \<times> number) list" where
  "score_all ar q [] = Inr []"
| "score_all ar q (v # vs) =
     (case cosineSimilarity ar q (embedding v) of
        Inl e \<Rightarrow> Inl e
      | Inr s \<Rightarrow> (case score_all ar q vs of
                   Inl e \<Rightarrow> Inl e
                 | Inr rest \<Rightarrow> Inr ((v, s) # rest)))"

text \<open>
  \<open>Array.prototype.sort\<close> with a comparator is stable: an element moves in front of an
  earlier one only where the comparator returns a negative number for the pair (a \<open>NaN\<close>
  counts as zero). For a comparator that orders the elements consistently this determines
  the result, which is computed here by stable insertion; where the comparator is not
  consistent (a \<open>NaN\<close> among other similarities) the order is left to the engine, and
  the theorems below exclude that case.
\<close>

fun insert_sorted :: "('a \<Rightarrow> 'a \<Rightarrow> number) \<Rightarrow> 'a \<Rightarrow> 'a list \<Rightarrow> 'a list" where
  "insert_sorted cmp x [] = [x]"
| "insert_sorted cmp x (y # ys) =
     (if is_negative (cmp y x) then y # insert_sorted cmp x ys else x # y # ys)"

definition sort_js :: "('a \<Rightarrow> 'a \<Rightarrow> number) \<Rightarrow> 'a list \<Rightarrow> 'a list" where
  "sort_js cmp xs = foldr (insert_sorted cmp) xs []"

text \<open>The comparator \<open>(a, b) => b.similarity - a.similarity\<close>.\<close>

definition by_similarity :: "vector \<times> number \<Rightarrow> vector \<times> number \<Rightarrow> number" where
  "by_similarity a b = js_sub (snd b) (snd a)"

text \<open>\<open>({ embedding, ...rest }) => rest\<close>.\<close>

definition strip :: "vector \<times> number \<Rightarrow> result" where
  "strip p = (case p of (v, s) \<Rightarrow>
     \<lparr>vec_id = vec_id v, documentId = documentId v, chunk_text = chunk_text v,
      chunkIndex = chunkIndex v, metadata = metadata v, similarity = s\<rparr>)"

text \<open>
  \<open>findSimilar(queryEmbedding, topK = 5, filterDocId = null)\<close>. The filter applies when
  \<open>filterDocId\<close> is truthy: neither \<open>null\<close> nor the empty string.
\<close>

definition findSimilar ::
  "arith \<Rightarrow> store \<Rightarrow> number list \<Rightarrow> int \<Rightarrow> jsstring option \<Rightarrow> error + result list" where
  "findSimilar ar st queryEmbedding topK filterDocId =
     (let candidates =
            (case filterDocId of
               None \<Rightarrow> vectors st
             | Some d \<Rightarrow> if d \<noteq> [] then filter (\<lambda>v. documentId v = d) (vectors st)
                         else vectors st)
      in case score_all ar queryEmbedding candidates of
           Inl e \<Rightarrow> Inl e
         | Inr similarities \<Rightarrow>
             Inr (map strip (slice (sort_js by_similarity similarities) 0 topK)))"

definition getDocumentVectors :: "store \<Rightarrow> jsstring \<Rightarrow> vector list" where
  "getDocumentVectors st docId = filter (\<lambda>v. documentId v = docId) (vectors st)"

definition deleteDocument :: "jsstring \<Rightarrow> store \<Rightarrow> store" where
  "deleteDocument docId st =
     st\<lparr>vectors := filter (\<lambda>v. documentId v \<noteq> docId) (vectors st),
        documents := fmdrop docId (documents st)\<rparr>"

definition getDocument :: "store \<Rightarrow> jsstring \<Rightarrow> document option" where
  "getDocument st docId = fmlookup (documents st) docId"

definition getStats :: "store \<Rightarrow> stats" where
  "getStats st =
     \<lparr>totalVectors = length (vectors st), totalDocuments = fcard (fmdom (documents st))\<rparr>"

section \<open>The fallback quiz (AIService)\<close>

record question =
  q_id :: int
  q_type :: jsstring
  q_question :: jsstring
  options :: "jsstring list option"
  answer :: jsstring
  explanation :: jsstring

definition mcq_question :: "jsstring \<Rightarrow> int \<Rightarrow> question" where
  "mcq_question topic i =
     \<lparr>q_id = i, q_type = js ''mcq'',
      q_question = js ''What is a key concept or important aspect of '' @ topic @ js ''?'',
      options = Some [js ''Option A - First concept'', js ''Option B - Second concept'',
                      js ''Option C - Third concept'', js ''Option D - Fourth concept''],
      answer = js ''Option A - First concept'',
      explanation = js ''This question tests your understanding of '' @ topic @
        js ''. Review the study materials to understand the key concepts better.''\<rparr>"

definition short_question :: "jsstring \<Rightarrow> int \<Rightarrow> question" where
  "short_question topic i =
     \<lparr>q_id = i, q_type = js ''short'',
      q_question = js ''Explain '' @ topic @
        js '' in your own words or describe a specific aspect of it.'',
      options = None,
      answer = js ''An explanation of '' @ topic @ js '' would include...'',
      explanation = js ''Review your study materials to provide a comprehensive answer about '' @
        topic @ js ''.''\<rparr>"

text \<open>
  The two \<open>for\<close> loops share one shape: \<open>for (let i = ...; i <= n; i++)
  questions.push(mk(i))\<close>.
\<close>

function push_loop :: "(int \<Rightarrow> question) \<Rightarrow> int \<Rightarrow> int \<Rightarrow> question list \<Rightarrow> question list" where
  "push_loop mk i n questions =
     (if i \<le> n then push_loop mk (i + 1) n (questions @ [mk i]) else questions)"
  by pat_completeness auto
termination
  by (relation "measure (\<lambda>(mk, i, n, questions). nat (n + 1 - i))") auto

declare push_loop.simps [simp del]

text \<open>
  \<open>fallbackQuizGeneration(topic, contexts = [], numQuestions = 5)\<close>, for an integer
  \<open>numQuestions\<close>. \<open>Math.ceil(numQuestions * 0.6)\<close> is taken over the reals: the double
  nearest to \<open>0.6\<close> lies below it by less than one part in \<open>10^16\<close>, so the rounded product
  is the integer \<open>3 * numQuestions / 5\<close> where that is one and has the same ceiling
  otherwise.
\<close>

definition fallbackQuizGeneration :: "jsstring \<Rightarrow> ctx list \<Rightarrow> int \<Rightarrow> question list" where
  "fallbackQuizGeneration topic contexts numQuestions =
     (let mcqCount = \<lceil>of_int numQuestions * (0.6 :: real)\<rceil>;
          questions = push_loop (mcq_question topic) 1 mcqCount []
      in push_loop (short_question topic) (mcqCount + 1) numQuestions questions)"

section \<open>Notions of the specification\<close>

text \<open>
  The specification's words for what \<open>cosineSimilarity\<close> computes: the dot product of two
  vectors and the Euclidean norm of a vector, each summed in index order in the arithmetic
  of numbers.
\<close>

definition dot_product :: "arith \<Rightarrow> number list \<Rightarrow> number list \<Rightarrow> number" where
  "dot_product ar a b =
     foldl (\<lambda>acc i. num_add ar acc (num_mul ar (a ! i) (b ! i))) (Fin 0) [0..<length a]"

definition euclidean_norm :: "arith \<Rightarrow> number list \<Rightarrow> number" where
  "euclidean_norm ar a = num_sqrt ar (dot_product ar a a)"






text \<open>A chunk that is non-empty and free of leading and trailing whitespace.\<close>

definition trimmed :: "jsstring \<Rightarrow> bool" where
  "trimmed c \<longleftrightarrow> c \<noteq> [] \<and> \<not> is_space (hd c) \<and> \<not> is_space (last c)"

section \<open>Example data\<close>

text \<open>
  An arithmetic for the examples: every operation gives its exact result, a result at or
  beyond \<open>2^1024\<close> in magnitude is an infinity, and the special values behave as in
  IEEE 754. It has no rounding; it agrees with the doubles wherever the exact result of
  each operation is a double or overflows, as in the examples below.
\<close>

definition clip :: "real \<Rightarrow> number" where
  "clip x = (if 2 ^ 1024 \<le> x then PosInfinity else if x \<le> - (2 ^ 1024) then NegInfinity
             else Fin x)"

definition inf_of :: "real \<Rightarrow> number" where
  "inf_of x = (if 0 < x then PosInfinity else if x < 0 then NegInfinity else NaN)"

fun signum :: "number \<Rightarrow> real" where
  "signum (Fin x) = sgn x"
| "signum PosInfinity = 1"
| "signum NegInfinity = - 1"
| "signum NaN = 0"

fun u_add :: "number \<Rightarrow> number \<Rightarrow> number" where
  "u_add (Fin x) (Fin y) = clip (x + y)"
| "u_add NaN _ = NaN"
| "u_add _ NaN = NaN"
| "u_add PosInfinity NegInfinity = NaN"
| "u_add NegInfinity PosInfinity = NaN"
| "u_add PosInfinity _ = PosInfinity"
| "u_add _ PosInfinity = PosInfinity"
| "u_add NegInfinity _ = NegInfinity"
| "u_add _ NegInfinity = NegInfinity"

fun u_mul :: "number \<Rightarrow> number \<Rightarrow> number" where
  "u_mul (Fin x) (Fin y) = clip (x * y)"
| "u_mul a b = inf_of (signum a * signum b)"

fun u_div :: "number \<Rightarrow> number \<Rightarrow> number" where
  "u_div (Fin x) (Fin y) = (if y = 0 then inf_of x else clip (x / y))"
| "u_div NaN _ = NaN"
| "u_div _ NaN = NaN"
| "u_div (Fin x) _ = Fin 0"
| "u_div a (Fin y) = inf_of (signum a * (if y < 0 then - 1 else 1))"
| "u_div _ _ = NaN"

fun u_sqrt :: "number \<Rightarrow> number" where
  "u_sqrt (Fin x) = (if x < 0 then NaN else Fin (sqrt x))"
| "u_sqrt PosInfinity = PosInfinity"
| "u_sqrt _ = NaN"

fun u_sin :: "number \<Rightarrow> number" where
  "u_sin (Fin x) = Fin (sin x)"
| "u_sin _ = NaN"

definition unrounded :: arith where
  "unrounded = \<lparr>num_add = u_add, num_mul = u_mul, num_div = u_div, num_sqrt = u_sqrt,
                 num_sin = u_sin\<rparr>"

definition example_metadata :: metadata where
  "example_metadata = \<lparr>filename = js ''notes.pdf'', page = 1, totalPages = 2\<rparr>"

definition example_vector :: "string \<Rightarrow> string \<Rightarrow> nat \<Rightarrow> real list \<Rightarrow> vector" where
  "example_vector name doc i e =
     \<lparr>vec_id = js name, documentId = js doc, chunk_text = js ''some text'', chunkIndex = i,
      metadata = example_metadata, embedding = map Fin e\<rparr>"


definition example_document :: "string \<Rightarrow> document" where
  "example_document doc =
     \<lparr>doc_id = js doc, doc_filename = js ''notes.pdf'',
      uploadedAt = js ''2024-01-01T00:00:00.000Z'', numChunks = 2, numPages = 2,
      filePath = js ''uploads/notes.pdf'', createdAt = js ''2024-01-01T00:00:00.000Z''\<rparr>"

text \<open>Two documents; the records of \<open>d1\<close> tie in similarity to the query \<open>[1, 0]\<close>.\<close>

definition example_store :: store where
  "example_store =
     \<lparr>vectors = [example_vector ''d1-chunk-0'' ''d1'' 0 [1, 0],
                 example_vector ''d2-chunk-0'' ''d2'' 0 [0, 1],
                 example_vector ''d1-chunk-1'' ''d1'' 1 [1, 0],
                 example_vector ''d2-chunk-1'' ''d2'' 1 [- 1, 0]],
      documents = fmupd (js ''d2'') (example_document ''d2'')
                    (fmupd (js ''d1'') (example_document ''d1'') fmempty)\<rparr>"

text \<open>A store in which the second record has an embedding of the wrong length.\<close>

definition malformed_store :: store where
  "malformed_store =
     \<lparr>vectors = [example_vector ''d1-chunk-0'' ''d1'' 0 [1, 0],
                 example_vector ''d1-chunk-1'' ''d1'' 1 [1]],
      documents = fmupd (js ''d1'') (example_document ''d1'') fmempty\<rparr>"

section \<open>Verification: the fallback chat path\<close>

text \<open>
  Whatever the message, \<open>getHelpfulResponse\<close> returns one of the four canned replies or
  throws: the default reply is never produced.
\<close>

lemma getHelpfulResponse_cases:
  "getHelpfulResponse message \<in>
     {Inr sine_response, Inr arrays_response, Inr greeting_response, Inr help_response,
      Inl (ReferenceError (js ''contexts''))}"
  by (simp add: getHelpfulResponse_def)

text \<open>
  Claim C1. A chat message that matches none of the canned topic handlers should get the
  generic reply from the fallback chat path, with no error raised to the caller. At the
  message "What is gravity?" with no passages the fallback path throws a ReferenceError
  instead: the default reply reads \<open>contexts\<close>, which is not in scope in
  \<open>getHelpfulResponse\<close>.
\<close>

theorem C1_fallback_default_raises:
  "fallbackChatResponse (js ''What is gravity?'') [] = Inl (ReferenceError (js ''contexts''))"
  by (simp add: fallbackChatResponse_def getHelpfulResponse_def js_def trim_def
      toLowerCase_def lower_unit_def is_space_def)

section \<open>Verification: the fallback quiz\<close>

lemma push_loop_eq: "push_loop mk i n qs = qs @ map mk [i..n]"
proof (induction mk i n qs rule: push_loop.induct)
  case (1 mk i n questions)
  show ?case
  proof (cases "i \<le> n")
    case True
    then have "[i..n] = i # [i + 1..n]" by (simp add: upto_rec1)
    with True 1 show ?thesis by (simp add: push_loop.simps [of mk i n questions])
  next
    case False
    then show ?thesis by (simp add: push_loop.simps [of mk i n questions])
  qed
qed

lemma fallbackQuizGeneration_eq:
  "fallbackQuizGeneration topic contexts n =
     map (mcq_question topic) [1..\<lceil>of_int n * (0.6 :: real)\<rceil>] @
     map (short_question topic) [\<lceil>of_int n * (0.6 :: real)\<rceil> + 1..n]"
  by (simp add: fallbackQuizGeneration_def Let_def push_loop_eq)

lemma mcqCount_bounds:
  assumes "1 \<le> n"
  shows "1 \<le> \<lceil>of_int n * (0.6 :: real)\<rceil>" and "\<lceil>of_int n * (0.6 :: real)\<rceil> \<le> n"
proof -
  from assms have "0 < of_int n * (0.6 :: real)" by simp
  then show "1 \<le> \<lceil>of_int n * (0.6 :: real)\<rceil>" by linarith
  from assms have "of_int n * (0.6 :: real) \<le> of_int n" by simp
  then show "\<lceil>of_int n * (0.6 :: real)\<rceil> \<le> n" by (simp add: ceiling_le_iff)
qed

lemma mcqCount_int: "\<lceil>of_int n * (0.6 :: real)\<rceil> = (3 * n + 4) div 5"
proof -
  have "of_int n * (0.6 :: real) = of_int (3 * n) / of_int 5" by simp
  then have "\<lceil>of_int n * (0.6 :: real)\<rceil> = - ((- (3 * n)) div 5)"
    by (simp only: ceiling_divide_eq_div)
  also have "\<dots> = (3 * n + 4) div 5" by presburger
  finally show ?thesis .
qed

text \<open>
  Claim C8. For every topic and every integer \<open>numQuestions \<ge> 1\<close> the fallback quiz has
  exactly \<open>numQuestions\<close> questions with ids \<open>1..numQuestions\<close> in order; the first
  \<open>ceil(0.6 * numQuestions)\<close> are multiple-choice with exactly four options and the first
  option as answer, the rest are short-answer; for \<open>numQuestions = 5\<close> that is three
  multiple-choice and two short-answer questions.
\<close>

theorem C8_fallback_quiz:
  "(1 \<le> n \<longrightarrow>
     (let qs = fallbackQuizGeneration topic contexts n;
          mcqCount = nat \<lceil>of_int n * (0.6 :: real)\<rceil>
      in length qs = nat n \<and> map q_id qs = [1..n] \<and>
         (\<forall>q \<in> set (take mcqCount qs).
            q_type q = js ''mcq'' \<and>
            (\<exists>a b c d. options q = Some [a, b, c, d] \<and> answer q = a)) \<and>
         (\<forall>q \<in> set (drop mcqCount qs). q_type q = js ''short'' \<and> options q = None))) \<and>
   length (filter (\<lambda>q. q_type q = js ''mcq'') (fallbackQuizGeneration topic contexts 5)) = 3 \<and>
   length (filter (\<lambda>q. q_type q = js ''short'') (fallbackQuizGeneration topic contexts 5)) = 2"
proof (intro conjI impI)
  assume n: "1 \<le> n"
  define m where "m = \<lceil>of_int n * (0.6 :: real)\<rceil>"
  have m: "1 \<le> m" "m \<le> n" using mcqCount_bounds [OF n] by (simp_all add: m_def)
  have qs: "fallbackQuizGeneration topic contexts n =
      map (mcq_question topic) [1..m] @ map (short_question topic) [m + 1..n]"
    by (simp add: fallbackQuizGeneration_eq m_def)
  have len: "length (map (mcq_question topic) [1..m]) = nat m" using m by simp
  have ids: "map q_id (fallbackQuizGeneration topic contexts n) = [1..m] @ [m + 1..n]"
    by (simp add: qs mcq_question_def short_question_def comp_def)
  have split: "[1..n] = [1..m] @ [m + 1..n]"
    using m upto_split2 [of 1 m n] by simp
  show "let qs = fallbackQuizGeneration topic contexts n;
          mcqCount = nat \<lceil>of_int n * (0.6 :: real)\<rceil>
      in length qs = nat n \<and> map q_id qs = [1..n] \<and>
         (\<forall>q \<in> set (take mcqCount qs).
            q_type q = js ''mcq'' \<and>
            (\<exists>a b c d. options q = Some [a, b, c, d] \<and> answer q = a)) \<and>
         (\<forall>q \<in> set (drop mcqCount qs). q_type q = js ''short'' \<and> options q = None)"
    unfolding Let_def m_def [symmetric]
  proof (intro conjI)
    show "length (fallbackQuizGeneration topic contexts n) = nat n"
      using m by (simp add: qs)
    show "map q_id (fallbackQuizGeneration topic contexts n) = [1..n]"
      by (simp add: ids split)
    show "\<forall>q \<in> set (take (nat m) (fallbackQuizGeneration topic contexts n)).
            q_type q = js ''mcq'' \<and>
            (\<exists>a b c d. options q = Some [a, b, c, d] \<and> answer q = a)"
      using len by (auto simp: qs mcq_question_def)
    show "\<forall>q \<in> set (drop (nat m) (fallbackQuizGeneration topic contexts n)).
            q_type q = js ''short'' \<and> options q = None"
      using len by (auto simp: qs short_question_def)
  qed
next
  have five: "\<lceil>of_int 5 * (0.6 :: real)\<rceil> = 3" by (simp add: mcqCount_int)
  have r1: "[1..3::int] = [1, 2, 3]" by (simp add: upto_rec1)
  have r2: "[4..5::int] = [4, 5]" by (simp add: upto_rec1)
  have q5: "fallbackQuizGeneration topic contexts 5 =
      map (mcq_question topic) [1, 2, 3] @ map (short_question topic) [4, 5]"
    using five r1 r2 by (simp add: fallbackQuizGeneration_eq)
  have ne: "js ''mcq'' \<noteq> js ''short''" by (simp add: js_def)
  show "length (filter (\<lambda>q. q_type q = js ''mcq'') (fallbackQuizGeneration topic contexts 5)) = 3"
    using ne by (simp add: q5 mcq_question_def short_question_def)
  show "length (filter (\<lambda>q. q_type q = js ''short'') (fallbackQuizGeneration topic contexts 5)) = 2"
    using ne by (simp add: q5 mcq_question_def short_question_def)
qed

text \<open>The quiz of five questions on "Arrays".\<close>

theorem C8_fallback_quiz_witness:
  "(1::int) \<le> 5 \<and>
   length (fallbackQuizGeneration (js ''Arrays'') [] 5) = 5 \<and>
   map q_id (fallbackQuizGeneration (js ''Arrays'') [] 5) = [1, 2, 3, 4, 5]"
proof -
  have h: "(1::int) \<le> 5" by simp
  have r: "[1..5::int] = [1, 2, 3, 4, 5]" by (simp add: upto_rec1)
  from C8_fallback_quiz [of 5 "js ''Arrays''" "[]"] h
  have "length (fallbackQuizGeneration (js ''Arrays'') [] 5) = nat 5 \<and>
        map q_id (fallbackQuizGeneration (js ''Arrays'') [] 5) = [1..5]"
    by (simp add: Let_def)
  with h r show ?thesis by simp
qed

section \<open>Verification: cosine similarity\<close>

text \<open>The loop accumulates the three sums side by side.\<close>

lemma cosine_loop_upto:
  "fold (\<lambda>i (d, na, nb).
           (num_add ar d (num_mul ar (a ! i) (b ! i)), num_add ar na (num_mul ar (a ! i) (a ! i)),
            num_add ar nb (num_mul ar (b ! i) (b ! i))))
     [0..<n] (Fin 0, Fin 0, Fin 0) =
   (foldl (\<lambda>acc i. num_add ar acc (num_mul ar (a ! i) (b ! i))) (Fin 0) [0..<n],
    foldl (\<lambda>acc i. num_add ar acc (num_mul ar (a ! i) (a ! i))) (Fin 0) [0..<n],
    foldl (\<lambda>acc i. num_add ar acc (num_mul ar (b ! i) (b ! i))) (Fin 0) [0..<n])"
  by (induction n) simp_all

lemma cosine_loop_eq:
  "length a = length b \<Longrightarrow>
   cosine_loop ar a b = (dot_product ar a b, dot_product ar a a, dot_product ar b b)"
  by (simp add: cosine_loop_def cosine_loop_upto dot_product_def)

lemma cosineSimilarity_eq:
  "length a = length b \<Longrightarrow>
   cosineSimilarity ar a b =
     Inr (num_div ar (dot_product ar a b) (num_mul ar (euclidean_norm ar a) (euclidean_norm ar b)))"
  by (simp add: cosineSimilarity_def cosine_loop_eq euclidean_norm_def)





lemma unrounded_sel [simp]:
  "num_add unrounded = u_add" "num_mul unrounded = u_mul" "num_div unrounded = u_div"
  "num_sqrt unrounded = u_sqrt" "num_sin unrounded = u_sin"
  by (simp_all add: unrounded_def)






section \<open>Verification: deleting a document\<close>

lemma fmdrop_absent: "k |\<notin>| fmdom m \<Longrightarrow> fmdrop k m = m"
  by (rule fmap_ext) (auto simp: fmdom_notD)

text \<open>
  Claim C10. \<open>deleteDocument\<close> on an id that is not in the document map and has no vector
  records returns normally (the model is a total function) and leaves the store, vectors
  and documents, unchanged; deleting the same id twice gives the same store as deleting it
  once.
\<close>

theorem C10_deleteDocument_idempotent:
  "(docId |\<notin>| fmdom (documents st) \<and> (\<forall>v \<in> set (vectors st). documentId v \<noteq> docId) \<longrightarrow>
      deleteDocument docId st = st) \<and>
   deleteDocument docId (deleteDocument docId st) = deleteDocument docId st"
proof (intro conjI impI)
  assume a: "docId |\<notin>| fmdom (documents st) \<and> (\<forall>v \<in> set (vectors st). documentId v \<noteq> docId)"
  then have "filter (\<lambda>v. documentId v \<noteq> docId) (vectors st) = vectors st"
    by (simp add: filter_id_conv)
  with a show "deleteDocument docId st = st"
    by (simp add: deleteDocument_def fmdrop_absent)
next
  show "deleteDocument docId (deleteDocument docId st) = deleteDocument docId st"
    by (simp add: deleteDocument_def)
qed

lemma example_ids_distinct: "js ''d1'' \<noteq> js ''d2''" "js ''d3'' \<noteq> js ''d1''" "js ''d3'' \<noteq> js ''d2''"
  by (simp_all add: js_def)

text \<open>The id \<open>d3\<close> is absent from the example store.\<close>

theorem C10_deleteDocument_idempotent_witness:
  "js ''d3'' |\<notin>| fmdom (documents example_store) \<and>
   js ''d3'' \<notin> set (map documentId (vectors example_store)) \<and>
   deleteDocument (js ''d3'') example_store = example_store"
proof -
  have a: "js ''d3'' |\<notin>| fmdom (documents example_store)"
    using example_ids_distinct by (simp add: example_store_def)
  have b: "\<forall>v \<in> set (vectors example_store). documentId v \<noteq> js ''d3''"
    using example_ids_distinct by (auto simp: example_store_def example_vector_def)
  from C10_deleteDocument_idempotent [of "js ''d3''" example_store] a b
  have "deleteDocument (js ''d3'') example_store = example_store" by blast
  with a b show ?thesis by auto
qed


text \<open>Every search result comes from a stored record.\<close>

lemma score_all_fst: "score_all ar q vs = Inr ps \<Longrightarrow> map fst ps = vs"
  by (induction vs arbitrary: ps) (auto split: sum.splits)

lemma mset_insert_sorted: "mset (insert_sorted cmp x ys) = add_mset x (mset ys)"
  by (induction ys) simp_all

lemma mset_sort_js: "mset (sort_js cmp xs) = mset xs"
  by (induction xs) (simp_all add: sort_js_def mset_insert_sorted)

lemma set_sort_js: "set (sort_js cmp xs) = set xs"
  using mset_sort_js [of cmp xs] by (metis set_mset_mset)

lemma set_slice: "set (slice xs a b) \<subseteq> set xs"
proof -
  have "set (take n (drop m xs)) \<subseteq> set xs" for n m
    using set_take_subset [of n "drop m xs"] set_drop_subset [of m xs] by blast
  then show ?thesis by (simp add: slice_def Let_def)
qed

lemma documentId_strip: "documentId (strip p) = documentId (fst p)"
  by (cases p) (simp add: strip_def)


lemma findSimilar_from_store:
  assumes "findSimilar ar st q k f = Inr rs" and "r \<in> set rs"
  shows "\<exists>v \<in> set (vectors st). documentId r = documentId v"
proof -
  define cands where "cands =
    (case f of None \<Rightarrow> vectors st
     | Some d \<Rightarrow> if d \<noteq> [] then filter (\<lambda>v. documentId v = d) (vectors st) else vectors st)"
  have sub: "set cands \<subseteq> set (vectors st)"
    by (auto simp: cands_def split: option.splits)
  from assms(1) obtain ps where ps: "score_all ar q cands = Inr ps"
    and rs: "rs = map strip (slice (sort_js by_similarity ps) 0 k)"
    by (auto simp: findSimilar_def cands_def [symmetric] split: sum.splits)
  from assms(2) rs obtain p where p: "p \<in> set (slice (sort_js by_similarity ps) 0 k)" "r = strip p"
    by auto
  from p(1) have "p \<in> set ps" using set_slice set_sort_js by fastforce
  then have "fst p \<in> set cands" using score_all_fst [OF ps] by force
  with sub p(2) show ?thesis by (auto simp: documentId_strip)
qed

text \<open>
  Claim C7. When document \<open>d\<close> is registered, after \<open>deleteDocument(d)\<close> no search,
  whatever the query, the \<open>topK\<close>, the filter and the arithmetic, returns a record of
  \<open>d\<close>;
  \<open>getDocumentVectors(d)\<close> is empty; \<open>totalDocuments\<close> has gone down by exactly one; and
  the records and the document entry of every other document are as before.
\<close>

theorem C7_deleteDocument_isolation:
  assumes "docId |\<in>| fmdom (documents st)"
  shows "(\<forall>ar q k f rs. findSimilar ar (deleteDocument docId st) q k f = Inr rs \<longrightarrow>
            (\<forall>r \<in> set rs. documentId r \<noteq> docId)) \<and>
         getDocumentVectors (deleteDocument docId st) docId = [] \<and>
         totalDocuments (getStats st) = totalDocuments (getStats (deleteDocument docId st)) + 1 \<and>
         (\<forall>d. d \<noteq> docId \<longrightarrow>
            getDocumentVectors (deleteDocument docId st) d = getDocumentVectors st d \<and>
            getDocument (deleteDocument docId st) d = getDocument st d)"
proof (intro conjI allI impI ballI)
  fix ar q k f rs r
  assume "findSimilar ar (deleteDocument docId st) q k f = Inr rs" and "r \<in> set rs"
  then obtain v where "v \<in> set (vectors (deleteDocument docId st))" "documentId r = documentId v"
    using findSimilar_from_store by blast
  then show "documentId r \<noteq> docId" by (simp add: deleteDocument_def)
next
  show "getDocumentVectors (deleteDocument docId st) docId = []"
    by (simp add: getDocumentVectors_def deleteDocument_def)
next
  have dom: "fmdom (fmdrop docId (documents st)) = fmdom (documents st) |-| {|docId|}"
    by simp
  from assms have "Suc (fcard (fmdom (documents st) |-| {|docId|})) = fcard (fmdom (documents st))"
    by (rule fcard_Suc_fminus1)
  then have "fcard (fmdom (documents st)) = fcard (fmdom (fmdrop docId (documents st))) + 1"
    by (simp only: dom Suc_eq_plus1)
  then show "totalDocuments (getStats st) = totalDocuments (getStats (deleteDocument docId st)) + 1"
    by (simp add: getStats_def deleteDocument_def)
next
  fix d assume "d \<noteq> docId"
  then show "getDocumentVectors (deleteDocument docId st) d = getDocumentVectors st d"
    by (auto simp: getDocumentVectors_def deleteDocument_def intro!: filter_cong)
next
  fix d assume "d \<noteq> docId"
  then show "getDocument (deleteDocument docId st) d = getDocument st d"
    by (simp add: getDocument_def deleteDocument_def)
qed

text \<open>Deleting \<open>d1\<close> from the example store.\<close>

theorem C7_deleteDocument_isolation_witness:
  "js ''d1'' |\<in>| fmdom (documents example_store) \<and>
   getDocumentVectors (deleteDocument (js ''d1'') example_store) (js ''d1'') = [] \<and>
   totalDocuments (getStats example_store) = 2 \<and>
   totalDocuments (getStats (deleteDocument (js ''d1'') example_store)) = 1 \<and>
   getDocumentVectors (deleteDocument (js ''d1'') example_store) (js ''d2'') =
     [example_vector ''d2-chunk-0'' ''d2'' 0 [0, 1], example_vector ''d2-chunk-1'' ''d2'' 1 [- 1, 0]]"
proof -
  have a: "js ''d1'' |\<in>| fmdom (documents example_store)"
    by (simp add: example_store_def)
  have two: "totalDocuments (getStats example_store) = 2"
    using example_ids_distinct by (simp add: getStats_def example_store_def fcard_finsert_if)
  have d2: "getDocumentVectors example_store (js ''d2'') =
     [example_vector ''d2-chunk-0'' ''d2'' 0 [0, 1], example_vector ''d2-chunk-1'' ''d2'' 1 [- 1, 0]]"
    using example_ids_distinct by (simp add: getDocumentVectors_def example_store_def example_vector_def)
  note t = C7_deleteDocument_isolation [OF a]
  from t have "getDocumentVectors (deleteDocument (js ''d1'') example_store) (js ''d1'') = []"
    by blast
  moreover from t two have "totalDocuments (getStats (deleteDocument (js ''d1'') example_store)) = 1"
    by simp
  moreover from t example_ids_distinct(1)
  have "getDocumentVectors (deleteDocument (js ''d1'') example_store) (js ''d2'') =
      getDocumentVectors example_store (js ''d2'')"
    by metis
  ultimately show ?thesis using a two d2 by simp
qed

section \<open>Verification: similarity search\<close>
























text \<open>A candidate whose embedding has another length than the query ends the scoring.\<close>

lemma score_all_mismatch:
  "\<exists>v \<in> set vs. length (embedding v) \<noteq> length q \<Longrightarrow> score_all ar q vs = Inl DimensionMismatch"
proof (induction vs)
  case Nil
  then show ?case by simp
next
  case (Cons v vs)
  show ?case
  proof (cases "length q = length (embedding v)")
    case True
    with Cons.prems have "\<exists>v \<in> set vs. length (embedding v) \<noteq> length q" by auto
    then have "score_all ar q vs = Inl DimensionMismatch" by (rule Cons.IH)
    with True show ?thesis by (simp add: cosineSimilarity_eq)
  next
    case False
    then show ?thesis by (simp add: cosineSimilarity_def)
  qed
qed

text \<open>
  Claim C5, as the code has it. \<open>findSimilar\<close> does not skip a record whose embedding
  length differs from the query's: if any candidate (any stored record, or with a document
  filter any record of that document) has such an embedding, the whole query fails with
  the dimension-mismatch error and returns no results.
\<close>

theorem C5_findSimilar_aborts:
  "((\<exists>v \<in> set (vectors st). length (embedding v) \<noteq> length q) \<longrightarrow>
      findSimilar ar st q topK None = Inl DimensionMismatch \<and>
      findSimilar ar st q topK (Some []) = Inl DimensionMismatch) \<and>
   (d \<noteq> [] \<and> (\<exists>v \<in> set (vectors st). documentId v = d \<and> length (embedding v) \<noteq> length q) \<longrightarrow>
      findSimilar ar st q topK (Some d) = Inl DimensionMismatch)"
proof (intro conjI impI)
  assume "\<exists>v \<in> set (vectors st). length (embedding v) \<noteq> length q"
  then have "score_all ar q (vectors st) = Inl DimensionMismatch" by (rule score_all_mismatch)
  then show "findSimilar ar st q topK None = Inl DimensionMismatch"
    and "findSimilar ar st q topK (Some []) = Inl DimensionMismatch"
    by (simp_all add: findSimilar_def)
next
  assume a: "d \<noteq> [] \<and>
    (\<exists>v \<in> set (vectors st). documentId v = d \<and> length (embedding v) \<noteq> length q)"
  then have "\<exists>v \<in> set (filter (\<lambda>v. documentId v = d) (vectors st)).
      length (embedding v) \<noteq> length q"
    by auto
  then have "score_all ar q (filter (\<lambda>v. documentId v = d) (vectors st)) = Inl DimensionMismatch"
    by (rule score_all_mismatch)
  with a show "findSimilar ar st q topK (Some d) = Inl DimensionMismatch"
    by (simp add: findSimilar_def)
qed

text \<open>
  The store with one well-formed and one malformed record: the claim as stated expects the
  well-formed record as result; the query fails.
\<close>

theorem C5_findSimilar_skips_counterexample:
  "findSimilar unrounded malformed_store [Fin 1, Fin 0] 5 None = Inl DimensionMismatch"
proof -
  have "\<exists>v \<in> set (vectors malformed_store). length (embedding v) \<noteq> length [Fin 1, Fin 0]"
    by (simp add: malformed_store_def example_vector_def)
  then have "score_all unrounded [Fin 1, Fin 0] (vectors malformed_store) = Inl DimensionMismatch"
    by (rule score_all_mismatch)
  then show ?thesis by (simp add: findSimilar_def)
qed

theorem C5_findSimilar_aborts_witness:
  "length (embedding (example_vector ''d1-chunk-1'' ''d1'' 1 [1])) \<noteq> length [Fin 1, Fin 0] \<and>
   example_vector ''d1-chunk-1'' ''d1'' 1 [1] \<in> set (vectors malformed_store) \<and>
   findSimilar unrounded malformed_store [Fin 1, Fin 0] 5 None = Inl DimensionMismatch"
proof -
  have a: "length (embedding (example_vector ''d1-chunk-1'' ''d1'' 1 [1])) \<noteq> length [Fin 1, Fin 0]"
    by (simp add: example_vector_def)
  have b: "example_vector ''d1-chunk-1'' ''d1'' 1 [1] \<in> set (vectors malformed_store)"
    by (simp add: malformed_store_def)
  from a b have "\<exists>v \<in> set (vectors malformed_store). length (embedding v) \<noteq> length [Fin 1, Fin 0]"
    by blast
  with C5_findSimilar_aborts [of malformed_store "[Fin 1, Fin 0]" unrounded 5]
  have "findSimilar unrounded malformed_store [Fin 1, Fin 0] 5 None = Inl DimensionMismatch"
    by blast
  with a b show ?thesis by simp
qed

section \<open>Verification: the chunker\<close>

text \<open>What \<open>trim\<close> returns is empty or trimmed; a text without whitespace is left as it is.\<close>

lemma dropWhile_last: "dropWhile P xs \<noteq> [] \<Longrightarrow> last (dropWhile P xs) = last xs"
  by (metis last_appendR takeWhile_dropWhile_id)

lemma trim_trimmed: "trim s \<noteq> [] \<Longrightarrow> trimmed (trim s)"
proof -
  assume ne: "trim s \<noteq> []"
  define t where "t = dropWhile is_space s"
  define u where "u = dropWhile is_space (rev t)"
  have tr: "trim s = rev u" by (simp add: trim_def t_def u_def)
  with ne have u: "u \<noteq> []" by simp
  then have t: "t \<noteq> []" by (auto simp: u_def)
  have "\<not> is_space (hd u)" using u unfolding u_def by (rule hd_dropWhile)
  then have l: "\<not> is_space (last (rev u))" using u by (simp add: last_rev)
  have "last u = last (rev t)" using u unfolding u_def by (rule dropWhile_last)
  also have "\<dots> = hd t" using t by (simp add: last_rev)
  finally have "hd (rev u) = hd t" using u by (simp add: hd_rev)
  moreover have "\<not> is_space (hd t)" using t unfolding t_def by (rule hd_dropWhile)
  ultimately have "\<not> is_space (hd (rev u))" by simp
  with l u show ?thesis by (simp add: trimmed_def tr)
qed

lemma dropWhile_none: "\<forall>c \<in> set xs. \<not> P c \<Longrightarrow> dropWhile P xs = xs"
  by (cases xs) simp_all

lemma trim_no_space: "\<forall>c \<in> set s. \<not> is_space c \<Longrightarrow> trim s = s"
  by (simp add: trim_def dropWhile_none)

lemma trim_nonempty: "\<exists>c \<in> set s. \<not> is_space c \<Longrightarrow> trim s \<noteq> []"
proof -
  assume "\<exists>c \<in> set s. \<not> is_space c"
  then have "dropWhile is_space s \<noteq> []" by simp
  moreover have "\<not> is_space (hd (dropWhile is_space s))" using calculation by (rule hd_dropWhile)
  ultimately have "\<exists>c \<in> set (rev (dropWhile is_space s)). \<not> is_space c"
    by (metis hd_in_set set_rev)
  then have "dropWhile is_space (rev (dropWhile is_space s)) \<noteq> []"
    by simp
  then show ?thesis by (simp add: trim_def)
qed

text \<open>A break point lies inside the text; a window ends where it should or was moved back.\<close>

lemma lastIndexOf_bounds:
  "- 1 \<le> lastIndexOf s c p" "lastIndexOf s c p < int (length s)"
proof -
  define start where "start = min (max p 0) (int (length s) - 1)"
  define hits where "hits = filter (\<lambda>k. s ! k = c) [0..<nat (start + 1)]"
  have eq: "lastIndexOf s c p = (if hits = [] then - 1 else int (last hits))"
    by (simp add: lastIndexOf_def Let_def hits_def start_def)
  show "- 1 \<le> lastIndexOf s c p" by (simp add: eq)
  show "lastIndexOf s c p < int (length s)"
  proof (cases "hits = []")
    case True
    then show ?thesis by (simp add: eq)
  next
    case False
    then have "last hits \<in> set hits" by simp
    then have "last hits < nat (start + 1)" by (simp add: hits_def)
    moreover have "start + 1 \<le> int (length s)" by (simp add: start_def)
    ultimately show ?thesis using False by (simp add: eq)
  qed
qed

lemma lastIndexOf_absent: "c \<notin> set s \<Longrightarrow> lastIndexOf s c p = - 1"
proof -
  assume a: "c \<notin> set s"
  have "filter (\<lambda>k. s ! k = c) [0..<nat (min (max p 0) (int (length s) - 1) + 1)] = []"
  proof (rule filter_False, rule ballI)
    fix k assume "k \<in> set [0..<nat (min (max p 0) (int (length s) - 1) + 1)]"
    then have "k < length s" by auto
    with a show "\<not> s ! k = c" by (metis nth_mem)
  qed
  then show ?thesis by (simp add: lastIndexOf_def Let_def)
qed

lemma chunk_end_cases:
  "chunk_end s chunkSize start = start + chunkSize \<or>
   (2 * start + chunkSize + 2 < 2 * chunk_end s chunkSize start \<and>
    chunk_end s chunkSize start \<le> int (length s))"
proof -
  define bp where "bp = max (lastIndexOf s 46 (start + chunkSize)) (lastIndexOf s 10 (start + chunkSize))"
  have "bp < int (length s)" using lastIndexOf_bounds(2) by (simp add: bp_def)
  then show ?thesis by (auto simp: chunk_end_def Let_def bp_def [symmetric])
qed

lemma chunk_end_plain:
  assumes "46 \<notin> set s" "10 \<notin> set s" "0 \<le> 2 * start + chunkSize + 2"
  shows "chunk_end s chunkSize start = start + chunkSize"
  using assms by (simp add: chunk_end_def Let_def lastIndexOf_absent)

text \<open>One iteration of the loop, and its exit.\<close>

lemma chunk_loop_step:
  "start < int (length s) \<Longrightarrow>
   chunk_loop s chunkSize overlap start chunks =
     chunk_loop s chunkSize overlap (chunk_end s chunkSize start - overlap)
       (if trim (slice s start (chunk_end s chunkSize start)) \<noteq> []
        then chunks @ [trim (slice s start (chunk_end s chunkSize start))] else chunks)"
  by (subst chunk_loop.simps) (simp add: Let_def)

lemma chunk_loop_stop:
  "int (length s) \<le> start \<Longrightarrow> chunk_loop s chunkSize overlap start chunks = Some chunks"
  by (subst chunk_loop.simps) simp

text \<open>
  With \<open>chunkSize \<ge> 1\<close> and \<open>2 * overlap \<le> chunkSize\<close> every iteration moves \<open>start\<close>
  forward, so the loop returns; every chunk it adds is trimmed.
\<close>

lemma chunk_loop_total:
  assumes "1 \<le> chunkSize" "2 * overlap \<le> chunkSize" "\<forall>c \<in> set chunks. trimmed c"
  shows "\<exists>cs. chunk_loop s chunkSize overlap start chunks = Some cs \<and> (\<forall>c \<in> set cs. trimmed c)"
  using assms(3)
proof (induction "nat (int (length s) - start)" arbitrary: start chunks rule: less_induct)
  case less
  show ?case
  proof (cases "start < int (length s)")
    case False
    with less.prems show ?thesis by (simp add: chunk_loop_stop)
  next
    case True
    define fin where "fin = chunk_end s chunkSize start"
    define chunks' where "chunks' =
      (if trim (slice s start fin) \<noteq> [] then chunks @ [trim (slice s start fin)] else chunks)"
    have step: "chunk_loop s chunkSize overlap start chunks =
        chunk_loop s chunkSize overlap (fin - overlap) chunks'"
      using True by (simp add: chunk_loop_step fin_def chunks'_def)
    have "start < fin - overlap"
      using chunk_end_cases [of s chunkSize start] assms(1,2) by (auto simp: fin_def)
    with True have m: "nat (int (length s) - (fin - overlap)) < nat (int (length s) - start)"
      by simp
    have "\<forall>c \<in> set chunks'. trimmed c"
      using less.prems by (auto simp: chunks'_def trim_trimmed)
    from less.hyps [OF m this] step show ?thesis by simp
  qed
qed

text \<open>
  With \<open>overlap \<ge> chunkSize\<close> and \<open>overlap \<ge> 1\<close> the loop never moves \<open>start\<close> past the
  end of a non-empty text: it returns nothing.
\<close>

lemma chunk_loop_diverges:
  assumes "chunk_loop s chunkSize overlap start chunks = Some y"
  shows "\<not> (chunkSize \<le> overlap \<and> 1 \<le> overlap \<and> start < int (length s))"
proof (rule chunk_loop.raw_induct [where P = "\<lambda>s chunkSize overlap start chunks y.
    \<not> (chunkSize \<le> overlap \<and> 1 \<le> overlap \<and> start < int (length s))", OF _ assms])
  fix loop :: "jsstring \<Rightarrow> int \<Rightarrow> int \<Rightarrow> int \<Rightarrow> jsstring list \<Rightarrow> jsstring list option"
  fix s chunkSize overlap start chunks y
  assume IH: "\<And>s chunkSize overlap start chunks y. loop s chunkSize overlap start chunks = Some y \<Longrightarrow>
      \<not> (chunkSize \<le> overlap \<and> 1 \<le> overlap \<and> start < int (length s))"
    and body: "(if start < int (length s)
      then let fin = chunk_end s chunkSize start;
               chunk = trim (slice s start fin);
               chunks' = (if length chunk > 0 then chunks @ [chunk] else chunks)
           in loop s chunkSize overlap (fin - overlap) chunks'
      else Some chunks) = Some y"
  show "\<not> (chunkSize \<le> overlap \<and> 1 \<le> overlap \<and> start < int (length s))"
  proof
    assume a: "chunkSize \<le> overlap \<and> 1 \<le> overlap \<and> start < int (length s)"
    define fin where "fin = chunk_end s chunkSize start"
    have "fin - overlap < int (length s)"
      using chunk_end_cases [of s chunkSize start] a by (auto simp: fin_def)
    moreover from body a obtain chunks' where "loop s chunkSize overlap (fin - overlap) chunks' = Some y"
      by (simp add: Let_def fin_def)
    ultimately show False using IH a by blast
  qed
qed

lemma chunkText_diverges:
  "s \<noteq> [] \<Longrightarrow> chunkSize \<le> overlap \<Longrightarrow> 1 \<le> overlap \<Longrightarrow> chunkText s chunkSize overlap = None"
  using chunk_loop_diverges [of s chunkSize overlap 0 "[]"]
  by (cases "chunkText s chunkSize overlap") (auto simp: chunkText_def)

text \<open>A text that fits in one window whose successor starts beyond the text.\<close>

lemma slice_all: "0 \<le> k \<Longrightarrow> int (length s) \<le> k \<Longrightarrow> slice s 0 k = s"
  by (simp add: slice_def Let_def)

lemma chunkText_single:
  assumes "\<exists>c \<in> set s. \<not> is_space c" "int (length s) \<le> chunkSize"
    "int (length s) \<le> chunkSize - overlap"
  shows "chunkText s chunkSize overlap = Some [trim s]"
proof -
  from assms(1) have ne: "s \<noteq> []" by auto
  have e: "chunk_end s chunkSize 0 = chunkSize"
    using assms(2) by (simp add: chunk_end_def)
  have sl: "slice s 0 chunkSize = s" using assms(2) by (simp add: slice_all)
  have "chunk_loop s chunkSize overlap 0 [] = chunk_loop s chunkSize overlap (chunkSize - overlap) [trim s]"
    using ne trim_nonempty [OF assms(1)] by (simp add: chunk_loop_step e sl)
  also have "\<dots> = Some [trim s]" using assms(3) by (simp add: chunk_loop_stop)
  finally show ?thesis by (simp add: chunkText_def)
qed


text \<open>A text without whitespace and full stops is cut at the window ends.\<close>

lemma slice_inside:
  "0 \<le> a \<Longrightarrow> a \<le> b \<Longrightarrow> a \<le> int (length s) \<Longrightarrow>
   slice s a b = take (nat (b - a)) (drop (nat a) s)"
  by (auto simp: slice_def Let_def min_def)

lemma no_space_piece:
  assumes "\<forall>c \<in> set s. \<not> is_space c"
  shows "trim (take n (drop m s)) = take n (drop m s)"
proof (rule trim_no_space, rule ballI)
  fix c assume "c \<in> set (take n (drop m s))"
  then have "c \<in> set s" by (meson in_set_dropD in_set_takeD)
  with assms show "\<not> is_space c" by simp
qed

lemma chunk_loop_plain_step:
  assumes "\<forall>c \<in> set s. \<not> is_space c \<and> c \<noteq> 46" "0 \<le> start" "start < int (length s)" "0 < chunkSize"
  shows "chunk_loop s chunkSize overlap start chunks =
     chunk_loop s chunkSize overlap (start + chunkSize - overlap)
       (chunks @ [take (nat chunkSize) (drop (nat start) s)])"
proof -
  have "is_space 10" by (simp add: is_space_def)
  with assms(1) have "46 \<notin> set s" "10 \<notin> set s" by auto
  then have e: "chunk_end s chunkSize start = start + chunkSize"
    using assms(2,4) by (simp add: chunk_end_plain)
  have sl: "slice s start (start + chunkSize) = take (nat chunkSize) (drop (nat start) s)"
    using assms(2-4) by (simp add: slice_inside)
  have tr: "trim (take (nat chunkSize) (drop (nat start) s)) = take (nat chunkSize) (drop (nat start) s)"
    using assms(1) by (simp add: no_space_piece)
  have "take (nat chunkSize) (drop (nat start) s) \<noteq> []"
    using assms(2-4) by simp
  then show ?thesis using assms(3) by (simp add: chunk_loop_step e sl tr)
qed

lemma chunkText_plain_2500:
  assumes "length s = 2500" "\<forall>c \<in> set s. \<not> is_space c \<and> c \<noteq> 46"
  shows "chunkText s 1000 200 =
     Some [take 1000 s, take 1000 (drop 800 s), drop 1600 s, drop 2400 s]"
proof -
  have "chunk_loop s 1000 200 0 [] = chunk_loop s 1000 200 800 [take 1000 s]"
    using chunk_loop_plain_step [OF assms(2), of 0 1000 200 "[]"] assms(1) by simp
  also have "\<dots> = chunk_loop s 1000 200 1600 [take 1000 s, take 1000 (drop 800 s)]"
    using chunk_loop_plain_step [OF assms(2), of 800 1000 200] assms(1) by simp
  also have "\<dots> = chunk_loop s 1000 200 2400 [take 1000 s, take 1000 (drop 800 s), drop 1600 s]"
    using chunk_loop_plain_step [OF assms(2), of 1600 1000 200] assms(1) by simp
  also have "\<dots> = chunk_loop s 1000 200 3200
      [take 1000 s, take 1000 (drop 800 s), drop 1600 s, drop 2400 s]"
    using chunk_loop_plain_step [OF assms(2), of 2400 1000 200] assms(1) by simp
  also have "\<dots> = Some [take 1000 s, take 1000 (drop 800 s), drop 1600 s, drop 2400 s]"
    using assms(1) by (simp add: chunk_loop_stop)
  finally show ?thesis by (simp add: chunkText_def)
qed

text \<open>
  Claim C9, as the code has it. For every 2500-character text \<open>chunkText(text, 1000, 200)\<close>
  returns, and each chunk is non-empty and free of leading and trailing whitespace. The
  number of chunks depends on the text; for a text without whitespace and full stops it
  is 4 (the windows start at 0, 800, 1600 and 2400), not 3.
\<close>

theorem C9_chunks_of_2500:
  "length s = 2500 \<longrightarrow>
     (\<exists>cs. chunkText s 1000 200 = Some cs \<and> (\<forall>c \<in> set cs. trimmed c) \<and>
        ((\<forall>c \<in> set s. \<not> is_space c \<and> c \<noteq> 46) \<longrightarrow> length cs = 4))"
proof
  assume len: "length s = 2500"
  have "\<exists>cs. chunk_loop s 1000 200 0 [] = Some cs \<and> (\<forall>c \<in> set cs. trimmed c)"
    by (rule chunk_loop_total) simp_all
  then obtain cs where cs: "chunkText s 1000 200 = Some cs" "\<forall>c \<in> set cs. trimmed c"
    by (auto simp: chunkText_def)
  have "length cs = 4" if "\<forall>c \<in> set s. \<not> is_space c \<and> c \<noteq> 46"
    using chunkText_plain_2500 [OF len that] cs(1) by auto
  with cs show "\<exists>cs. chunkText s 1000 200 = Some cs \<and> (\<forall>c \<in> set cs. trimmed c) \<and>
        ((\<forall>c \<in> set s. \<not> is_space c \<and> c \<noteq> 46) \<longrightarrow> length cs = 4)"
    by blast
qed

text \<open>The text of 2500 letters \<open>a\<close>: four chunks, of 1000, 1000, 900 and 100 letters.\<close>

theorem C9_three_chunks_counterexample:
  "chunkText (replicate 2500 97) 1000 200 =
     Some [replicate 1000 97, replicate 1000 97, replicate 900 97, replicate 100 97]"
proof -
  have "\<forall>c \<in> set (replicate 2500 (97 :: nat)). \<not> is_space c \<and> c \<noteq> 46"
    by (simp add: is_space_def)
  from chunkText_plain_2500 [OF _ this] show ?thesis by simp
qed

theorem C9_chunks_of_2500_witness:
  "length (replicate 2500 (97 :: nat)) = 2500 \<and>
   (\<exists>cs. chunkText (replicate 2500 97) 1000 200 = Some cs \<and> length cs = 4)"
proof -
  have len: "length (replicate 2500 (97 :: nat)) = 2500" by simp
  have plain: "\<forall>c \<in> set (replicate 2500 (97 :: nat)). \<not> is_space c \<and> c \<noteq> 46"
    by (simp add: is_space_def)
  from C9_chunks_of_2500 [of "replicate 2500 97"] len plain
  have "\<exists>cs. chunkText (replicate 2500 97) 1000 200 = Some cs \<and> length cs = 4"
    by blast
  with len show ?thesis by simp
qed

text \<open>
  Claim C2, as the code has it. \<open>chunkText\<close> does not check \<open>overlap\<close> against
  \<open>chunkSize\<close>. It returns for every text when \<open>chunkSize \<ge> 1\<close> and
  \<open>2 * overlap \<le> chunkSize\<close> (the defaults 1000 and 200 among them). For a text that
  holds a character other than whitespace and is no longer than \<open>chunkSize\<close> and than
  \<open>chunkSize - overlap\<close> it returns exactly one chunk, the trimmed text.
\<close>

theorem C2_chunkText_terminates:
  "(1 \<le> chunkSize \<and> 2 * overlap \<le> chunkSize \<longrightarrow> (\<exists>cs. chunkText s chunkSize overlap = Some cs)) \<and>
   ((\<exists>c \<in> set s. \<not> is_space c) \<and> int (length s) \<le> chunkSize \<and>
    int (length s) \<le> chunkSize - overlap \<longrightarrow>
      chunkText s chunkSize overlap = Some [trim s])"
proof (intro conjI impI)
  assume "1 \<le> chunkSize \<and> 2 * overlap \<le> chunkSize"
  then have "\<exists>cs. chunk_loop s chunkSize overlap 0 [] = Some cs \<and> (\<forall>c \<in> set cs. trimmed c)"
    by (intro chunk_loop_total) simp_all
  then show "\<exists>cs. chunkText s chunkSize overlap = Some cs" by (auto simp: chunkText_def)
next
  assume "(\<exists>c \<in> set s. \<not> is_space c) \<and> int (length s) \<le> chunkSize \<and>
    int (length s) \<le> chunkSize - overlap"
  then show "chunkText s chunkSize overlap = Some [trim s]"
    by (intro chunkText_single) simp_all
qed

text \<open>
  With \<open>overlap = chunkSize = 1\<close> the call on "a" never returns; the nine-letter text
  "abcdefghi", shorter than \<open>chunkSize = 10\<close>, gives two chunks with \<open>overlap = 2\<close>.
\<close>

lemma js_abc: "js ''abcdefghi'' = [97, 98, 99, 100, 101, 102, 103, 104, 105]" "js ''a'' = [97]"
  "js ''i'' = [105]" "js ''abc'' = [97, 98, 99]"
  by (simp_all add: js_def)

theorem C2_no_guard_counterexample:
  "chunkText (js ''a'') 1 1 = None \<and>
   chunkText (js ''abcdefghi'') 10 2 = Some [js ''abcdefghi'', js ''i'']"
proof
  show "chunkText (js ''a'') 1 1 = None"
    by (rule chunkText_diverges) (simp_all add: js_abc)
  have sp: "\<forall>c \<in> set (js ''abcdefghi''). \<not> is_space c \<and> c \<noteq> 46"
    by (simp add: js_abc is_space_def)
  have "chunk_loop (js ''abcdefghi'') 10 2 0 [] =
      chunk_loop (js ''abcdefghi'') 10 2 8 [js ''abcdefghi'']"
    using chunk_loop_plain_step [OF sp, of 0 10 2 "[]"] by (simp add: js_abc)
  also have "\<dots> = chunk_loop (js ''abcdefghi'') 10 2 16 [js ''abcdefghi'', js ''i'']"
    using chunk_loop_plain_step [OF sp, of 8 10 2 "[js ''abcdefghi'']"] by (simp add: js_abc)
  also have "\<dots> = Some [js ''abcdefghi'', js ''i'']"
    by (simp add: chunk_loop_stop js_abc)
  finally show "chunkText (js ''abcdefghi'') 10 2 = Some [js ''abcdefghi'', js ''i'']"
    by (simp add: chunkText_def)
qed

theorem C2_chunkText_terminates_witness:
  "(1 :: int) \<le> 10 \<and> (2 :: int) * 2 \<le> 10 \<and> (\<exists>c \<in> set (js ''abc''). \<not> is_space c) \<and>
   int (length (js ''abc'')) \<le> 10 \<and> int (length (js ''abc'')) \<le> 10 - 2 \<and>
   chunkText (js ''abc'') 10 2 = Some [js ''abc'']"
proof -
  have a: "\<exists>c \<in> set (js ''abc''). \<not> is_space c" by (simp add: js_abc is_space_def)
  have b: "int (length (js ''abc'')) \<le> 10" "int (length (js ''abc'')) \<le> 10 - 2"
    by (simp_all add: js_abc)
  have t: "trim (js ''abc'') = js ''abc''"
    by (rule trim_no_space) (simp add: js_abc is_space_def)
  from C2_chunkText_terminates [of 10 2 "js ''abc''"] a b
  have "chunkText (js ''abc'') 10 2 = Some [trim (js ''abc'')]" by blast
  with a b t show ?thesis by simp
qed

section \<open>Verification: the fallback embedding\<close>










end
